theory Spec2Isabelle
  imports Main "HOL-Library.Word"
begin

section \<open>Data model of the collective-signing core (kernel/cosi.go, kernel/final.go)\<close>

text \<open>
  Go's fixed-size byte arrays and unsigned integers are words: \<open>crypto.Hash\<close> and
  \<open>crypto.Key\<close> are \<open>[32]byte\<close>, timestamps, round numbers and cross-chain links are
  \<open>uint64\<close> (so \<open>+\<close> and \<open>*\<close> wrap modulo \<open>2 ^ 64\<close> as in the source). Pointers that the
  code compares with \<open>nil\<close> are options. Values whose types are declared in packages
  outside the modelled files and are never inspected by them (Go errors, transactions,
  aggregate signatures, committee node descriptors) are opaque tokens.
\<close>

type_synonym Hash = "256 word"
type_synonym Key = "256 word"
type_synonym u64 = "64 word"
type_synonym addr = nat

datatype error = Error nat
datatype VersionedTransaction = VersionedTransaction nat
datatype CosiSignature = CosiSignature nat
datatype CNode = CNode nat

record RoundLink =
  Self :: Hash
  External :: Hash

record Snapshot =
  Version :: "8 word"
  NodeId :: Hash
  Transaction :: Hash
  References :: RoundLink
  RoundNumber :: u64
  Timestamp :: u64
  Signature :: "CosiSignature option"
  Hash :: Hash

record CacheRound =
  cNodeId :: Hash
  cNumber :: u64
  cTimestamp :: u64
  cReferences :: RoundLink
  cSnapshots :: "Snapshot list"

record FinalRound =
  fNodeId :: Hash
  fNumber :: u64
  fStart :: u64
  fEnd :: u64
  fHash :: Hash

text \<open>The round as the store returns it (\<open>persistStore.ReadRound\<close>).\<close>

record Round =
  rHash :: Hash
  rNodeId :: Hash
  rNumber :: u64
  rTimestamp :: u64
  rReferences :: RoundLink

text \<open>The action tags, \<open>iota\<close> from 0 as in the \<open>const\<close> block of cosi.go.\<close>

definition CosiActionSelfEmpty :: int where "CosiActionSelfEmpty = 0"
definition CosiActionExternalChallenge :: int where "CosiActionExternalChallenge = 4"
definition CosiActionFinalization :: int where "CosiActionFinalization = 5"

text \<open>
  \<open>CosiAction\<close>: the snapshot is a pointer into the store of snapshot objects; a struct
  literal that leaves a field out has Go's zero value there.
\<close>

record CosiAction =
  Action :: int
  PeerId :: Hash
  SnapshotHash :: Hash
  mSnapshot :: "addr option"
  Commitment :: "Key option"
  mSignature :: "CosiSignature option"
  Response :: "256 word option"
  mTransaction :: "VersionedTransaction option"
  WantTx :: bool

text \<open>
  \<open>CosiAggregator\<close>: \<open>aSnapshot\<close> is the pointer \<open>*common.Snapshot\<close>; the maps with
  pointer values keep the pointer (\<open>None\<close> is a stored \<open>nil\<close>).
\<close>

record CosiAggregator =
  aSnapshot :: "addr option"
  aTransaction :: "VersionedTransaction option"
  WantTxs :: "Hash \<rightharpoonup> bool"
  Commitments :: "nat \<rightharpoonup> Key option"
  Responses :: "nat \<rightharpoonup> 256 word option"
  committed :: "Hash \<rightharpoonup> bool"
  responsed :: "Hash \<rightharpoonup> bool"

record CosiVerifier =
  vSnapshot :: "addr option"
  vrandom :: "Key option"

subsection \<open>Effects\<close>

text \<open>
  Every call of a collaborator that acts on the world (peer transport, the queue, the
  persistent store, the round graph, the clock) is recorded, in program order, as an
  event carrying the arguments of the call. A snapshot handed to the transport or to
  the queue is recorded with the field values it has at the call.
\<close>

datatype Event =
    Sleep nat
  | ConfirmSnapshotForPeer Hash Hash
  | SendSnapshotConfirmMessage Hash Hash
  | SendSnapshotAnnouncementMessage Hash Snapshot
  | SendSnapshotCommitmentMessage Hash Hash "Key option" bool
  | SendTransactionChallengeMessage Hash Hash "CosiSignature option" "VersionedTransaction option"
  | QueueAppendSnapshot Hash Snapshot bool
  | queueSnapshotOrPanic Hash "Snapshot option" bool
  | clearAndQueueSnapshotOrPanic Snapshot
  | legacyAppendFinalization Hash Snapshot
  | writeTransaction VersionedTransaction
  | UpdateEmptyHeadRound Hash u64 RoundLink
  | StartNewRound Hash u64 RoundLink u64
  | assignNewGraphRound FinalRound CacheRound
  | cosiActionsChan CosiAction

text \<open>What a function does at its end: it returns its results (an error result is an
  option, \<open>None\<close> is \<open>nil\<close>), or the process panics.\<close>

datatype 'a outcome = Return 'a | Panic

subsection \<open>The collaborators outside the modelled files\<close>

text \<open>
  The configuration constants and the functions of other packages (and of kernel files
  other than cosi.go and final.go) are parameters: one field for each, a function of the
  arguments of the call. A Go function returning \<open>(v, err)\<close> returns the pair. \<open>io\<close>
  gives the error result of every recorded effect that returns one. \<open>now\<close> is the
  clock: \<open>now i\<close> is \<open>uint64(time.Now().UnixNano())\<close> at the \<open>i\<close>-th reading of a
  handler run. \<open>rangeConsensusNodes\<close> is the order in which \<open>range
  node.ConsensusNodes\<close> visits the keys in this run (Go leaves it unspecified).
\<close>

record Env =
  SnapshotVersion :: "8 word"
  SnapshotRoundGap :: u64
  SnapshotReferenceThreshold :: u64
  CheckCatchUpWithPeers :: bool
  CheckBroadcastedToPeers :: bool
  now :: "nat \<Rightarrow> u64"
  rangeConsensusNodes :: "Hash list"
  io :: "Event \<Rightarrow> error option"
  PayloadHash :: "Snapshot \<Rightarrow> Hash"
  ConsensusKeys :: "u64 \<Rightarrow> Key list"
  ConsensusThreshold :: "u64 \<Rightarrow> int"
  CacheVerifyCosi :: "Hash \<Rightarrow> CosiSignature option \<Rightarrow> Key list \<Rightarrow> int \<Rightarrow> bool"
  CheckTransactionInNode :: "Hash \<Rightarrow> Hash \<Rightarrow> bool \<times> error option"
  checkTransaction :: "Hash \<Rightarrow> Hash \<Rightarrow> VersionedTransaction option \<times> bool \<times> error option"
  validateKernelSnapshot :: "Snapshot \<Rightarrow> VersionedTransaction \<Rightarrow> error option"
  checkInitialAcceptSnapshot :: "Snapshot \<Rightarrow> VersionedTransaction option \<Rightarrow> bool"
  ReadRound :: "Hash \<Rightarrow> Round option \<times> error option"
  ReadLink :: "Hash \<Rightarrow> Hash \<Rightarrow> u64 \<times> error option"
  determinBestRound :: "u64 \<Rightarrow> FinalRound option"
  Gap :: "CacheRound \<Rightarrow> u64 \<times> u64"
  asFinal :: "CacheRound \<Rightarrow> FinalRound"
  startNewRound :: "Snapshot \<Rightarrow> CacheRound \<Rightarrow> bool \<Rightarrow> FinalRound option \<times> bool \<times> error option"
  ValidateSnapshot :: "CacheRound \<Rightarrow> Snapshot \<Rightarrow> bool \<Rightarrow> bool"
  CosiAggregateCommitment :: "(nat \<rightharpoonup> Key option) \<Rightarrow> CosiSignature option \<times> error option"
  VerifyResponse :: "CosiSignature option \<Rightarrow> Key list \<Rightarrow> int \<Rightarrow> 256 word option \<Rightarrow> Hash \<Rightarrow> error option"
  CosiCommit :: "Key option"
  Public :: "Key option \<Rightarrow> Key option"

subsection \<open>The node\<close>

text \<open>
  The fields of \<open>Node\<close> that cosi.go reads and writes. \<open>CosiAggregators\<close> is the map
  of \<open>aggregatorMap\<close>: it holds pointers, so one aggregator can stand under two keys;
  \<open>aggregators\<close> and \<open>snapshots\<close> are the stores of the objects the pointers refer to,
  and \<open>heap_next\<close> is the next address \<open>&CosiAggregator{...}\<close> allocates.
\<close>

record Node =
  IdForNetwork :: Hash
  ConsensusNodes :: "Hash \<rightharpoonup> CNode"
  SortedConsensusNodes :: "Hash list"
  CosiAggregators :: "Hash \<rightharpoonup> addr"
  CosiVerifiers :: "Hash \<rightharpoonup> CosiVerifier"
  Graph_CacheRound :: "Hash \<rightharpoonup> CacheRound"
  Graph_FinalRound :: "Hash \<rightharpoonup> FinalRound"
  Graph_GraphTimestamp :: u64
  aggregators :: "addr \<rightharpoonup> CosiAggregator"
  snapshots :: "addr \<rightharpoonup> Snapshot"
  heap_next :: addr

section \<open>The entry points of the peer threads\<close>

subsection \<open>CosiQueueExternalAnnouncement (cosi.go 626-642)\<close>

text \<open>
  The snapshot is the one the peer sent; the call sets its \<open>Hash\<close> field, so the
  snapshot is returned with the outcome and the events.
\<close>

definition CosiQueueExternalAnnouncement ::
  "Env \<Rightarrow> Node \<Rightarrow> Hash \<Rightarrow> Snapshot \<Rightarrow> error option outcome \<times> Snapshot \<times> Event list" where
  "CosiQueueExternalAnnouncement env node peerId s =
    (if ConsensusNodes node (NodeId s) = None then (Return None, s, [])
     else if Version s \<noteq> SnapshotVersion env then (Return None, s, [])
     else if NodeId s = IdForNetwork node \<or> NodeId s \<noteq> peerId then (Return None, s, [])
     else if Signature s \<noteq> None \<or> Timestamp s = 0 then (Return None, s, [])
     else
       let s' = s\<lparr>Hash := PayloadHash env s\<rparr> in
       (Return (io env (QueueAppendSnapshot peerId s' False)), s',
        [QueueAppendSnapshot peerId s' False]))"

subsection \<open>VerifyAndQueueAppendSnapshotFinalization (cosi.go 718-748)\<close>


section \<open>The handlers of the action loop\<close>

subsection \<open>Reading the stores\<close>

text \<open>
  \<open>aggregatorMap.Get\<close> (cosi.go 761-765) returns the pointer stored under the key,
  \<open>nil\<close> when there is none; the result here is the address together with the
  aggregator it points to. Reading a \<open>map[crypto.Hash]bool\<close> at a missing key gives
  \<open>false\<close>. \<open>deref_Snapshot\<close> follows a snapshot pointer; \<open>None\<close> is the \<open>nil\<close>
  pointer, whose dereference panics.
\<close>

definition aggregatorMap_Get :: "Node \<Rightarrow> Hash \<Rightarrow> (addr \<times> CosiAggregator) option" where
  "aggregatorMap_Get node k =
    (case CosiAggregators node k of
       None \<Rightarrow> None
     | Some a \<Rightarrow> (case aggregators node a of None \<Rightarrow> None | Some g \<Rightarrow> Some (a, g)))"

definition lookup_bool :: "('k \<rightharpoonup> bool) \<Rightarrow> 'k \<Rightarrow> bool" where
  "lookup_bool m k = (case m k of None \<Rightarrow> False | Some b \<Rightarrow> b)"

definition deref_Snapshot :: "Node \<Rightarrow> addr option \<Rightarrow> (addr \<times> Snapshot) option" where
  "deref_Snapshot node p =
    (case p of None \<Rightarrow> None
     | Some a \<Rightarrow> (case snapshots node a of None \<Rightarrow> None | Some s \<Rightarrow> Some (a, s)))"

text \<open>
  The loop \<open>for i, id := range node.SortedConsensusNodes { if id == peer { ...; break } }\<close>:
  the first index at which the peer stands, counted from \<open>i\<close>.
\<close>

fun index_of :: "Hash list \<Rightarrow> Hash \<Rightarrow> nat \<Rightarrow> nat option" where
  "index_of [] x i = None"
| "index_of (y # ys) x i = (if y = x then Some i else index_of ys x (Suc i))"

subsection \<open>cosiHandleCommitment (cosi.go 340-393)\<close>

text \<open>
  The loop of lines 380-391 over the keys of \<open>node.ConsensusNodes\<close>, in the order of
  this run: a key without an entry in \<open>WantTxs\<close> is skipped, the first failing send
  ends the loop and the handler with its error.
\<close>

fun send_challenges ::
  "Env \<Rightarrow> (Hash \<rightharpoonup> bool) \<Rightarrow> Hash \<Rightarrow> CosiSignature option \<Rightarrow> VersionedTransaction option
     \<Rightarrow> Hash list \<Rightarrow> error option \<times> Event list" where
  "send_challenges env wants h cosi tx [] = (None, [])"
| "send_challenges env wants h cosi tx (i # ids) =
    (case wants i of
       None \<Rightarrow> send_challenges env wants h cosi tx ids
     | Some wantTx \<Rightarrow>
         let e = SendTransactionChallengeMessage i h cosi (if wantTx then tx else None) in
         (case io env e of
            Some err \<Rightarrow> (Some err, [e])
          | None \<Rightarrow> (case send_challenges env wants h cosi tx ids of (r, es) \<Rightarrow> (r, e # es))))"

text \<open>
  The handler writes through the pointer \<open>ann\<close>: the aggregator object at its address
  changes, under every key that holds the address. \<open>len\<close> of a Go map is the number
  of its keys.
\<close>

definition cosiHandleCommitment :: "Env \<Rightarrow> Node \<Rightarrow> CosiAction \<Rightarrow> error option outcome \<times> Node \<times> Event list" where
  "cosiHandleCommitment env node m =
    (if \<not> CheckCatchUpWithPeers env then (Return None, node, [Sleep 100000000])
     else case aggregatorMap_Get node (SnapshotHash m) of
       None \<Rightarrow> (Return None, node, [])
     | Some (a, ann) \<Rightarrow>
       if lookup_bool (committed ann) (PeerId m) then (Return None, node, [])
       else
         let ann1 = ann\<lparr>committed := (committed ann)(PeerId m \<mapsto> True)\<rparr>;
             node1 = node\<lparr>aggregators := (aggregators node)(a \<mapsto> ann1)\<rparr>
         in
         if ConsensusNodes node (PeerId m) = None then (Return None, node1, [])
         else case deref_Snapshot node1 (aSnapshot ann1) of
           None \<Rightarrow> (Panic, node1, [])
         | Some (sa, s) \<Rightarrow>
           let base = ConsensusThreshold env (Timestamp s) in
           if int (card (dom (Commitments ann1))) \<ge> base then (Return None, node1, [])
           else
             let ann2 = (case index_of (SortedConsensusNodes node) (PeerId m) 0 of
                           None \<Rightarrow> ann1
                         | Some i \<Rightarrow> ann1\<lparr>WantTxs := (WantTxs ann1)(PeerId m \<mapsto> WantTx m),
                                          Commitments := (Commitments ann1)(i \<mapsto> Commitment m)\<rparr>);
                 node2 = node1\<lparr>aggregators := (aggregators node1)(a \<mapsto> ann2)\<rparr>
             in
             if int (card (dom (Commitments ann2))) < base then (Return None, node2, [])
             else case checkTransaction env (SnapshotHash m) (Transaction s) of
               (tx, finalized, err) \<Rightarrow>
               if err \<noteq> None \<or> finalized \<or> tx = None then (Return err, node2, [])
               else case CosiAggregateCommitment env (Commitments ann2) of
                 (cosi, err) \<Rightarrow>
                 if err \<noteq> None then (Return err, node2, [])
                 else
                   let node3 = node2\<lparr>snapshots := (snapshots node2)(sa \<mapsto> s\<lparr>Signature := cosi\<rparr>)\<rparr> in
                   (case send_challenges env (WantTxs ann2) (SnapshotHash m) cosi tx
                           (rangeConsensusNodes env) of
                      (r, es) \<Rightarrow> (Return r, node3, es)))"

text \<open>
  What happens to the node between two commitments, as far as this handler sees it:
  other commitment actions are handled (each in the environment of its own run), and
  the committee may be reloaded (\<open>reloadConsensusNodesList\<close>, outside the modelled
  files, replaces \<open>ConsensusNodes\<close> and \<open>SortedConsensusNodes\<close>).
\<close>

datatype step = Commit Env CosiAction | Reload "Hash \<rightharpoonup> CNode" "Hash list"

fun run :: "step list \<Rightarrow> Node \<Rightarrow> Node" where
  "run [] node = node"
| "run (Commit env m # steps) node = run steps (fst (snd (cosiHandleCommitment env node m)))"
| "run (Reload cn srt # steps) node =
     run steps (node\<lparr>ConsensusNodes := cn, SortedConsensusNodes := srt\<rparr>)"



subsection \<open>CosiAggregateSelfResponses (cosi.go 676-716)\<close>


section \<open>Starting a new round on finalization replay\<close>

subsection \<open>tryToStartNewRound (final.go 32-77)\<close>

text \<open>
  The fields of \<open>Chain\<close> that the function reads; the two rounds of \<open>chain.State\<close>
  are pointers. \<open>StateCopy\<close> and \<open>Copy\<close> are outside the modelled files: they return
  copies of the rounds, and since a copy reads the fields of its receiver, a \<open>nil\<close>
  round panics there. The error of line 41 is a fixed token (its text is not
  modelled).
\<close>

record Chain =
  ChainId :: Hash
  State_CacheRound :: "CacheRound option"
  State_FinalRound :: "FinalRound option"

definition node_not_accepted_yet :: error where
  "node_not_accepted_yet = Error 41"

definition tryToStartNewRound ::
  "Env \<Rightarrow> Chain \<Rightarrow> Snapshot \<Rightarrow> (bool \<times> error option) outcome \<times> Event list" where
  "tryToStartNewRound env chain s =
    (if ChainId chain \<noteq> NodeId s then (Panic, [])
     else if State_FinalRound chain = None \<and> RoundNumber s = 0 then (Return (False, None), [])
     else case State_CacheRound chain of
       None \<Rightarrow> (Return (False, Some node_not_accepted_yet), [])
     | Some cache \<Rightarrow>
       (case State_FinalRound chain of
          None \<Rightarrow> (Panic, [])
        | Some final0 \<Rightarrow>
          if RoundNumber s \<noteq> cNumber cache + 1 then (Return (False, None), [])
          else
            let dummyExternal = External (cReferences cache) in
            (case startNewRound env s cache True of
               (round, dummy, err) \<Rightarrow>
               if err \<noteq> None then (Return (False, err), [])
               else case round of
                 None \<Rightarrow> (Return (False, None), [])
               | Some final \<Rightarrow>
                 let cache1 = \<lparr>cNodeId = NodeId s, cNumber = RoundNumber s,
                                cTimestamp = Timestamp s,
                                cReferences = \<lparr>Self = Self (References s),
                                               External = External (References s)\<rparr>,
                                cSnapshots = []\<rparr>;
                     cache2 = (if dummy
                               then cache1\<lparr>cReferences := (cReferences cache1)\<lparr>External := dummyExternal\<rparr>\<rparr>
                               else cache1);
                     persist = StartNewRound (cNodeId cache2) (cNumber cache2) (cReferences cache2)
                                 (fStart final)
                 in
                 if io env persist \<noteq> None then (Panic, [persist])
                 else (Return (dummy, None), [persist, assignNewGraphRound final cache2]))))"

subsection \<open>cosiHandleAnnouncement (cosi.go 224-338)\<close>

text \<open>
  \<open>return node.f(...)\<close> for a recorded call \<open>f\<close>: the events so far, the call, and its
  result as the handler's.
\<close>

definition return_call :: "Env \<Rightarrow> Node \<Rightarrow> Event list \<Rightarrow> Event \<Rightarrow> error option outcome \<times> Node \<times> Event list" where
  "return_call env node evs e = (Return (io env e), node, evs @ [e])"







subsection \<open>cosiSendAnnouncement (cosi.go 84-222)\<close>

text \<open>
  The loop of lines 146-152: the clock is read until it exceeds the timestamp of the
  cache round, with a sleep of 300 ms after every reading that does not. The result
  is the number of sleeps and the timestamp; the loop does not return (\<open>None\<close>) when
  no reading from \<open>i\<close> on exceeds it.
\<close>

partial_function (option) stamp :: "(nat \<Rightarrow> u64) \<Rightarrow> u64 \<Rightarrow> nat \<Rightarrow> (nat \<times> u64) option" where
  "stamp clock cts i = (if clock i > cts then Some (i, clock i) else stamp clock cts (Suc i))"

text \<open>
  The loops of lines 125-130 and 215-220 over the keys of \<open>node.ConsensusNodes\<close>: the
  first failing send ends the loop and the handler with its error.
\<close>

fun send_announcements :: "Env \<Rightarrow> Snapshot \<Rightarrow> Hash list \<Rightarrow> error option \<times> Event list" where
  "send_announcements env s [] = (None, [])"
| "send_announcements env s (p # ps) =
    (let e = SendSnapshotAnnouncementMessage p s in
     case io env e of
       Some err \<Rightarrow> (Some err, [e])
     | None \<Rightarrow> (case send_announcements env s ps of (r, es) \<Rightarrow> (r, e # es)))"

text \<open>The aggregator of lines 111-119.\<close>

definition new_aggregator :: "addr \<Rightarrow> VersionedTransaction \<Rightarrow> CosiAggregator" where
  "new_aggregator sa tx =
    \<lparr>aSnapshot = Some sa, aTransaction = Some tx, WantTxs = Map.empty,
     Commitments = Map.empty, Responses = Map.empty,
     committed = Map.empty, responsed = Map.empty\<rparr>"

text \<open>
  Lines 208-221: the cache round takes the timestamp of the snapshot, the snapshot
  takes the number and the references of the cache round and its payload hash, the
  rounds are assigned to the graph, the aggregator (at address \<open>a\<close>) is registered
  under the hash, and the announcement goes to the committee.
\<close>

definition cosiSendAnnouncement_announce ::
  "Env \<Rightarrow> Node \<Rightarrow> addr \<Rightarrow> Snapshot \<Rightarrow> addr \<Rightarrow> FinalRound \<Rightarrow> CacheRound \<Rightarrow> Event list
     \<Rightarrow> error option outcome \<times> Node \<times> Event list" where
  "cosiSendAnnouncement_announce env node sa s a final cache evs =
    (let cache1 = cache\<lparr>cTimestamp := Timestamp s\<rparr>;
         s1 = s\<lparr>RoundNumber := cNumber cache1, References := cReferences cache1\<rparr>;
         s2 = s1\<lparr>Hash := PayloadHash env s1\<rparr>;
         node1 = node\<lparr>snapshots := (snapshots node)(sa \<mapsto> s2),
                      CosiAggregators := (CosiAggregators node)(Hash s2 \<mapsto> a)\<rparr>
     in case send_announcements env s2 (rangeConsensusNodes env) of
          (r, es) \<Rightarrow> (Return r, node1, evs @ [assignNewGraphRound final cache1] @ es))"

text \<open>
  Lines 154-207, after the stamping: the refresh of the references of an empty cache
  round, and the rollover of a cache round that is older than the round gap.
\<close>

definition cosiSendAnnouncement_round ::
  "Env \<Rightarrow> Node \<Rightarrow> addr \<Rightarrow> Snapshot \<Rightarrow> addr \<Rightarrow> FinalRound \<Rightarrow> CacheRound \<Rightarrow> Event list
     \<Rightarrow> error option outcome \<times> Node \<times> Event list" where
  "cosiSendAnnouncement_round env node sa s a final cache evs =
    (if length (cSnapshots cache) = 0 then
       (case ReadRound env (External (cReferences cache)) of
          (external, err) \<Rightarrow>
          if err \<noteq> None then (Return err, node, evs)
          else case external of
            None \<Rightarrow> (Panic, node, evs)
          | Some external \<Rightarrow>
            let threshold = rTimestamp external
                  + SnapshotReferenceThreshold env * SnapshotRoundGap env * 36
            in
            (case determinBestRound env (Timestamp s) of
               None \<Rightarrow> cosiSendAnnouncement_announce env node sa s a final cache evs
             | Some best \<Rightarrow>
               if fNodeId best \<noteq> fNodeId final \<and> threshold < fStart best then
                 (case ReadLink env (cNodeId cache) (fNodeId best) of
                    (link, err) \<Rightarrow>
                    if err \<noteq> None then (Return err, node, evs)
                    else if fNumber best \<le> link then
                      return_call env node evs (clearAndQueueSnapshotOrPanic s)
                    else
                      let cache' = \<lparr>cNodeId = cNodeId cache, cNumber = cNumber cache,
                                     cTimestamp = 0,
                                     cReferences = \<lparr>Self = fHash final, External = fHash best\<rparr>,
                                     cSnapshots = []\<rparr>;
                          upd = UpdateEmptyHeadRound (cNodeId cache') (cNumber cache')
                                  (cReferences cache')
                      in
                      if io env upd \<noteq> None then (Panic, node, evs @ [upd])
                      else return_call env node (evs @ [upd, assignNewGraphRound final cache'])
                             (clearAndQueueSnapshotOrPanic s))
               else cosiSendAnnouncement_announce env node sa s a final cache evs))
     else case Gap env cache of
       (start, end') \<Rightarrow>
       if Timestamp s \<ge> start + SnapshotRoundGap env then
         (case determinBestRound env (Timestamp s) of
            None \<Rightarrow>
              return_call env node (evs @ [Sleep (unat (SnapshotRoundGap env div 2))])
                (clearAndQueueSnapshotOrPanic s)
          | Some best \<Rightarrow>
            if fNodeId best = fNodeId final then (Panic, node, evs)
            else
              let final' = asFinal env cache;
                  cache' = \<lparr>cNodeId = NodeId s, cNumber = fNumber final' + 1, cTimestamp = 0,
                             cReferences = \<lparr>Self = fHash final', External = fHash best\<rparr>,
                             cSnapshots = []\<rparr>;
                  start' = StartNewRound (cNodeId cache') (cNumber cache') (cReferences cache')
                             (fStart final')
              in
              if io env start' \<noteq> None then (Panic, node, evs @ [start'])
              else cosiSendAnnouncement_announce env node sa s a final' cache' (evs @ [start']))
       else cosiSendAnnouncement_announce env node sa s a final cache evs)"

text \<open>
  The handler. The aggregator object of line 111 enters the store of aggregators when
  the first pointer to it is stored (lines 123 and 137). The result is \<open>None\<close> when
  the stamping loop does not return.
\<close>

definition cosiSendAnnouncement ::
  "Env \<Rightarrow> Node \<Rightarrow> CosiAction \<Rightarrow> (error option outcome \<times> Node \<times> Event list) option" where
  "cosiSendAnnouncement env node m =
    (if \<not> CheckCatchUpWithPeers env then
       Some (return_call env node [Sleep 100000000]
               (queueSnapshotOrPanic (PeerId m)
                  (map_option snd (deref_Snapshot node (mSnapshot m))) False))
     else case deref_Snapshot node (mSnapshot m) of
       None \<Rightarrow> Some (Panic, node, [])
     | Some (sa, s) \<Rightarrow>
       if NodeId s \<noteq> IdForNetwork node \<or> Version s \<noteq> SnapshotVersion env
          \<or> Signature s \<noteq> None \<or> Timestamp s \<noteq> 0
       then Some (Panic, node, [])
       else case checkTransaction env (NodeId s) (Transaction s) of
         (txo, finalized, err) \<Rightarrow>
         if err \<noteq> None then
           Some (return_call env node [] (queueSnapshotOrPanic (PeerId m) (Some s) False))
         else case txo of
           None \<Rightarrow> Some (Return None, node, [])
         | Some tx \<Rightarrow>
           if finalized then Some (Return None, node, [])
           else if validateKernelSnapshot env s tx \<noteq> None then Some (Return None, node, [])
           else if io env (writeTransaction tx) \<noteq> None then
             Some (Return None, node, [writeTransaction tx])
           else
             let a = heap_next node;
                 node1 = node\<lparr>aggregators := (aggregators node)(a \<mapsto> new_aggregator sa tx),
                              heap_next := Suc a\<rparr>
             in
             if checkInitialAcceptSnapshot env s (Some tx) then
               (let s1 = s\<lparr>Timestamp := now env 0\<rparr>;
                    node2 = node1\<lparr>snapshots := (snapshots node1)(sa \<mapsto> s1),
                       CosiAggregators := (CosiAggregators node1)
                          (Transaction s1 \<mapsto> a, PayloadHash env s1 \<mapsto> a)\<rparr>
                in case send_announcements env s1 (rangeConsensusNodes env) of
                     (r, es) \<Rightarrow> Some (Return r, node2, writeTransaction tx # es))
             else if aggregatorMap_Get node (Transaction s) \<noteq> None then
               Some (Return None, node, [writeTransaction tx])
             else
               let node2 = node1\<lparr>CosiAggregators := (CosiAggregators node1)(Transaction s \<mapsto> a)\<rparr> in
               case Graph_CacheRound node (NodeId s) of
                 None \<Rightarrow> Some (Panic, node2, [writeTransaction tx])
               | Some cache \<Rightarrow>
                 (case Graph_FinalRound node (NodeId s) of
                    None \<Rightarrow> Some (Panic, node2, [writeTransaction tx])
                  | Some final \<Rightarrow>
                    if length (cSnapshots cache) = 0 \<and> \<not> CheckBroadcastedToPeers env then
                      Some (return_call env node2
                              [writeTransaction tx, Sleep (unat (SnapshotRoundGap env div 2))]
                              (queueSnapshotOrPanic (PeerId m) (Some s) False))
                    else case stamp (now env) (cTimestamp cache) 0 of
                      None \<Rightarrow> None
                    | Some (i, ts) \<Rightarrow>
                      let s1 = s\<lparr>Timestamp := ts\<rparr>;
                          node3 = node2\<lparr>snapshots := (snapshots node2)(sa \<mapsto> s1)\<rparr>
                      in
                      Some (cosiSendAnnouncement_round env node3 sa s1 a final cache
                              (writeTransaction tx # replicate i (Sleep 300000000)))))"

text \<open>
  Modelled from the spec: the invariant of \<open>CacheRound\<close> (its declaration and
  \<open>ValidateSnapshot\<close>, which maintains it, are outside the modelled files): the
  timestamp of a cache round is the maximum of the timestamps of its snapshots.
\<close>

definition CacheRound_timestamp_is_max :: "CacheRound \<Rightarrow> bool" where
  "CacheRound_timestamp_is_max cache \<longleftrightarrow>
     list_all (\<lambda>x. Timestamp x \<le> cTimestamp cache) (cSnapshots cache)"

section \<open>Concrete nodes and environments\<close>

text \<open>
  A committee of four nodes 1, 2, 3, 4 (node 1 is this node), threshold 3, the current
  snapshot version 1, a clock that stands at 5000, a transport and a store that never
  fail, and an aggregate verification that accepts exactly the signature token 7.
\<close>

definition snap0 :: Snapshot where
  "snap0 = \<lparr>Version = 1, NodeId = 2, Transaction = 77,
     References = \<lparr>Self = 10, External = 20\<rparr>, RoundNumber = 3, Timestamp = 1000,
     Signature = None, Hash = 0\<rparr>"

definition env0 :: Env where
  "env0 = \<lparr>SnapshotVersion = 1, SnapshotRoundGap = 50, SnapshotReferenceThreshold = 10,
     CheckCatchUpWithPeers = True, CheckBroadcastedToPeers = True,
     now = (\<lambda>i. 5000), rangeConsensusNodes = [1, 2, 3, 4],
     io = (\<lambda>e. None),
     PayloadHash = (\<lambda>s. 99),
     ConsensusKeys = (\<lambda>t. [11, 12, 13, 14]),
     ConsensusThreshold = (\<lambda>t. 3),
     CacheVerifyCosi = (\<lambda>h sig publics base. sig = Some (CosiSignature 7)),
     CheckTransactionInNode = (\<lambda>n t. (False, None)),
     checkTransaction = (\<lambda>n t. (Some (VersionedTransaction 77), False, None)),
     validateKernelSnapshot = (\<lambda>s t. None),
     checkInitialAcceptSnapshot = (\<lambda>s t. False),
     ReadRound = (\<lambda>h. (None, None)),
     ReadLink = (\<lambda>a b. (0, None)),
     determinBestRound = (\<lambda>t. None),
     Gap = (\<lambda>c. (0, 0)),
     asFinal = (\<lambda>c. \<lparr>fNodeId = cNodeId c, fNumber = cNumber c, fStart = 0, fEnd = 0, fHash = 0\<rparr>),
     startNewRound = (\<lambda>s c d. (None, False, None)),
     ValidateSnapshot = (\<lambda>c s f. True),
     CosiAggregateCommitment = (\<lambda>cs. (Some (CosiSignature 7), None)),
     VerifyResponse = (\<lambda>sig publics i r h. None),
     CosiCommit = Some 5,
     Public = (\<lambda>k. k)\<rparr>"

definition node0 :: Node where
  "node0 = \<lparr>IdForNetwork = 1,
     ConsensusNodes = [1 \<mapsto> CNode 1, 2 \<mapsto> CNode 2, 3 \<mapsto> CNode 3, 4 \<mapsto> CNode 4],
     SortedConsensusNodes = [1, 2, 3, 4],
     CosiAggregators = Map.empty, CosiVerifiers = Map.empty,
     Graph_CacheRound = Map.empty, Graph_FinalRound = Map.empty,
     Graph_GraphTimestamp = 0,
     aggregators = Map.empty, snapshots = Map.empty, heap_next = 0\<rparr>"


text \<open>
  \<open>node1\<close>: node 1 has proposed \<open>snap1\<close> (hash 99, transaction 77); its aggregator
  stands under both keys and holds the commitments of nodes 1 and 2.
\<close>

definition agg1 :: CosiAggregator where
  "agg1 = \<lparr>aSnapshot = Some 0, aTransaction = Some (VersionedTransaction 77),
     WantTxs = [1 \<mapsto> False, 2 \<mapsto> True],
     Commitments = [0 \<mapsto> Some 21, 1 \<mapsto> Some 22],
     Responses = Map.empty,
     committed = [1 \<mapsto> True, 2 \<mapsto> True],
     responsed = Map.empty\<rparr>"

definition snap1 :: Snapshot where
  "snap1 = \<lparr>Version = 1, NodeId = 1, Transaction = 77,
     References = \<lparr>Self = 10, External = 20\<rparr>, RoundNumber = 3, Timestamp = 1000,
     Signature = None, Hash = 99\<rparr>"

definition node1 :: Node where
  "node1 = node0\<lparr>CosiAggregators := [77 \<mapsto> 0, 99 \<mapsto> 0],
     aggregators := [0 \<mapsto> agg1], snapshots := [0 \<mapsto> snap1], heap_next := 1\<rparr>"










definition cache4 :: CacheRound where
  "cache4 = \<lparr>cNodeId = 2, cNumber = 4, cTimestamp = 900,
     cReferences = \<lparr>Self = 40, External = 41\<rparr>, cSnapshots = []\<rparr>"

definition final3 :: FinalRound where
  "final3 = \<lparr>fNodeId = 2, fNumber = 3, fStart = 700, fEnd = 800, fHash = 40\<rparr>"

definition final4 :: FinalRound where
  "final4 = \<lparr>fNodeId = 2, fNumber = 4, fStart = 900, fEnd = 950, fHash = 50\<rparr>"

definition chain2 :: Chain where
  "chain2 = \<lparr>ChainId = 2, State_CacheRound = Some cache4, State_FinalRound = Some final3\<rparr>"

definition snap5 :: Snapshot where
  "snap5 = \<lparr>Version = 1, NodeId = 2, Transaction = 78,
     References = \<lparr>Self = 50, External = 60\<rparr>, RoundNumber = 5, Timestamp = 1000,
     Signature = Some (CosiSignature 7), Hash = 98\<rparr>"

definition env_dummy :: Env where
  "env_dummy = env0\<lparr>startNewRound := (\<lambda>s c d. (Some final4, d, None))\<rparr>"








definition snapS :: Snapshot where
  "snapS = \<lparr>Version = 1, NodeId = 1, Transaction = 77,
     References = \<lparr>Self = 0, External = 0\<rparr>, RoundNumber = 0, Timestamp = 0,
     Signature = None, Hash = 0\<rparr>"

definition proposeS :: CosiAction where
  "proposeS = \<lparr>Action = CosiActionSelfEmpty, PeerId = 1, SnapshotHash = 0,
     mSnapshot = Some 0, Commitment = None, mSignature = None, Response = None,
     mTransaction = None, WantTx = False\<rparr>"

definition cacheS :: CacheRound where
  "cacheS = \<lparr>cNodeId = 1, cNumber = 7, cTimestamp = 120,
     cReferences = \<lparr>Self = 70, External = 71\<rparr>,
     cSnapshots = [snapS\<lparr>RoundNumber := 7, Timestamp := 100, Hash := 5\<rparr>,
                   snapS\<lparr>RoundNumber := 7, Timestamp := 120, Hash := 6\<rparr>]\<rparr>"

definition finalS :: FinalRound where
  "finalS = \<lparr>fNodeId = 1, fNumber = 6, fStart = 40, fEnd = 60, fHash = 70\<rparr>"

definition finalB :: FinalRound where
  "finalB = \<lparr>fNodeId = 2, fNumber = 3, fStart = 110, fEnd = 115, fHash = 80\<rparr>"

definition nodeS :: Node where
  "nodeS = node0\<lparr>Graph_CacheRound := [1 \<mapsto> cacheS], Graph_FinalRound := [1 \<mapsto> finalS],
     snapshots := [0 \<mapsto> snapS]\<rparr>"

text \<open>
  The clock stands at 160, the round gap is 50 and the cache round starts at 100; a
  sealed round is the cache round with its window and the hash 90. \<open>env_roll\<close> has the
  best external round \<open>finalB\<close> of node 2, \<open>env_nobest\<close> has none.
\<close>

definition env_nobest :: Env where
  "env_nobest = env0\<lparr>now := (\<lambda>i. 160), Gap := (\<lambda>c. (100, 120)),
     asFinal := (\<lambda>c. \<lparr>fNodeId = cNodeId c, fNumber = cNumber c, fStart = 100, fEnd = 120,
                       fHash = 90\<rparr>)\<rparr>"

definition env_roll :: Env where
  "env_roll = env_nobest\<lparr>determinBestRound := (\<lambda>t. Some finalB)\<rparr>"

text \<open>
  A clock that reads 1500, 1800, 2100, ... and a cache round with the timestamp 2000
  that is younger than the round gap of 500.
\<close>

definition env_clock :: Env where
  "env_clock = env0\<lparr>now := (\<lambda>i. 1500 + 300 * of_nat i), SnapshotRoundGap := 500,
     Gap := (\<lambda>c. (1990, 2000))\<rparr>"

definition cacheT :: CacheRound where
  "cacheT = \<lparr>cNodeId = 1, cNumber = 7, cTimestamp = 2000,
     cReferences = \<lparr>Self = 70, External = 71\<rparr>,
     cSnapshots = [snapS\<lparr>RoundNumber := 7, Timestamp := 1990, Hash := 5\<rparr>,
                   snapS\<lparr>RoundNumber := 7, Timestamp := 2000, Hash := 6\<rparr>]\<rparr>"

definition nodeT :: Node where
  "nodeT = nodeS\<lparr>Graph_CacheRound := [1 \<mapsto> cacheT]\<rparr>"

definition snapT :: Snapshot where
  "snapT = snapS\<lparr>RoundNumber := 7, References := \<lparr>Self = 70, External = 71\<rparr>,
     Timestamp := 2100, Hash := 99\<rparr>"

section \<open>Theorems\<close>

subsection \<open>C10\<close>

text \<open>
  C10. \<open>CosiQueueExternalAnnouncement\<close> silently drops every announcement whose
  snapshot's \<open>node_id\<close> differs from the id of the sending peer: it returns \<open>nil\<close>,
  leaves the snapshot as it is and enqueues nothing. Together with the other drops, an
  announcement is enqueued exactly when its proposer is a committee member other than
  this node, it has the current version, it comes from the proposer itself, and it has
  no signature and a nonzero timestamp.
\<close>

theorem C10_relayed_announcement_dropped:
  "(NodeId s \<noteq> peerId \<longrightarrow>
      CosiQueueExternalAnnouncement env node peerId s = (Return None, s, []))
   \<and> (snd (snd (CosiQueueExternalAnnouncement env node peerId s)) \<noteq> [] \<longleftrightarrow>
        ConsensusNodes node (NodeId s) \<noteq> None \<and> Version s = SnapshotVersion env
        \<and> NodeId s \<noteq> IdForNetwork node \<and> NodeId s = peerId
        \<and> Signature s = None \<and> Timestamp s \<noteq> 0)"
  by (auto simp add: CosiQueueExternalAnnouncement_def Let_def)

theorem C10_relayed_announcement_dropped_witness:
  "NodeId snap0 \<noteq> 3
   \<and> CosiQueueExternalAnnouncement env0 node0 3 snap0 = (Return None, snap0, [])
   \<and> snd (snd (CosiQueueExternalAnnouncement env0 node0 2 snap0)) \<noteq> []"
  using C10_relayed_announcement_dropped [of snap0 3 env0 node0]
        C10_relayed_announcement_dropped [of snap0 2 env0 node0]
  by (simp add: snap0_def env0_def node0_def)

subsection \<open>C1\<close>




subsection \<open>A counted peer stays counted\<close>









subsection \<open>C4\<close>





subsection \<open>C6\<close>

lemma index_of_Some:
  "index_of xs x k = Some i \<Longrightarrow> k \<le> i \<and> i - k < length xs \<and> xs ! (i - k) = x \<and> x \<notin> set (take (i - k) xs)"
proof (induction xs arbitrary: k)
  case Nil
  then show ?case by simp
next
  case (Cons y ys)
  show ?case
  proof (cases "y = x")
    case True
    with Cons.prems show ?thesis by simp
  next
    case False
    with Cons.prems have "index_of ys x (Suc k) = Some i" by simp
    from Cons.IH [OF this] False show ?thesis
      by (auto simp: Suc_diff_le nth_Cons' take_Cons' split: if_splits)
  qed
qed



subsection \<open>C7\<close>





subsection \<open>C9\<close>




subsection \<open>C8\<close>

text \<open>
  C8. For every call of \<open>tryToStartNewRound\<close> (the chain's own snapshot, both rounds
  of the chain present) whose snapshot has \<open>round_number = cache.number + 1\<close>, when
  \<open>startNewRound\<close> with \<open>allowDummy = true\<close> returns a round and no error and reports
  a dummy external reference: the new cache round has the snapshot's node, round
  number and timestamp, its \<open>self\<close> reference is \<open>s.references.self\<close> and its
  \<open>external\<close> reference is the external reference of the previous cache round; this
  round is what is persisted with \<open>StartNewRound\<close> and, once the store has accepted
  it, assigned to the graph together with the returned final round, and the call
  returns the dummy flag \<open>true\<close> with no error. (If the store refuses the new round
  the process panics, as the source does on every failed round write.)
\<close>

theorem C8_dummy_keeps_external:
  assumes "ChainId chain = NodeId s"
    and "State_CacheRound chain = Some cache"
    and "State_FinalRound chain = Some final0"
    and "RoundNumber s = cNumber cache + 1"
    and "startNewRound env s cache True = (Some final, True, None)"
  shows
    "let cache' = \<lparr>cNodeId = NodeId s, cNumber = RoundNumber s, cTimestamp = Timestamp s,
                    cReferences = \<lparr>Self = Self (References s),
                                   External = External (cReferences cache)\<rparr>,
                    cSnapshots = []\<rparr>;
         persist = StartNewRound (NodeId s) (RoundNumber s) (cReferences cache') (fStart final)
     in tryToStartNewRound env chain s =
          (if io env persist = None
           then (Return (True, None), [persist, assignNewGraphRound final cache'])
           else (Panic, [persist]))"
  using assms by (simp add: tryToStartNewRound_def Let_def)

theorem C8_dummy_keeps_external_witness:
  "tryToStartNewRound env_dummy chain2 snap5 =
     (Return (True, None),
      [StartNewRound 2 5 \<lparr>Self = 50, External = 41\<rparr> 900,
       assignNewGraphRound final4
         \<lparr>cNodeId = 2, cNumber = 5, cTimestamp = 1000,
            cReferences = \<lparr>Self = 50, External = 41\<rparr>, cSnapshots = []\<rparr>])"
proof -
  have h: "ChainId chain2 = NodeId snap5" "State_CacheRound chain2 = Some cache4"
    "State_FinalRound chain2 = Some final3" "RoundNumber snap5 = cNumber cache4 + 1"
    "startNewRound env_dummy snap5 cache4 True = (Some final4, True, None)"
    by (simp_all add: chain2_def snap5_def cache4_def env_dummy_def)
  have v: "io env_dummy e = None" for e
    by (simp add: env_dummy_def env0_def)
  from C8_dummy_keeps_external [OF h]
  show ?thesis
    by (simp add: Let_def v snap5_def cache4_def final4_def)
qed

subsection \<open>The reference rule of cosiHandleAnnouncement\<close>










subsection \<open>C5\<close>



subsection \<open>The stamping loop and the announcement of cosiSendAnnouncement\<close>

text \<open>
  When the stamping loop returns, it returns the first clock reading that exceeds the
  timestamp of the cache round, and it returns as soon as there is such a reading.
\<close>

lemma stamp_Some_raw:
  assumes "stamp clock cts i = Some y"
  shows "i \<le> fst y \<and> snd y = clock (fst y) \<and> cts < snd y
     \<and> (\<forall>k. i \<le> k \<and> k < fst y \<longrightarrow> clock k \<le> cts)"
proof (rule stamp.raw_induct
    [where P = "\<lambda>clock cts i y. i \<le> fst y \<and> snd y = clock (fst y) \<and> cts < snd y
       \<and> (\<forall>k. i \<le> k \<and> k < fst y \<longrightarrow> clock k \<le> cts)", OF _ assms])
  fix stamp' :: "(nat \<Rightarrow> u64) \<Rightarrow> u64 \<Rightarrow> nat \<Rightarrow> (nat \<times> u64) option"
    and clock cts i y
  assume IH: "\<And>clock cts i y. stamp' clock cts i = Some y \<Longrightarrow>
      i \<le> fst y \<and> snd y = clock (fst y) \<and> cts < snd y
      \<and> (\<forall>k. i \<le> k \<and> k < fst y \<longrightarrow> clock k \<le> cts)"
    and body: "(if cts < clock i then Some (i, clock i) else stamp' clock cts (Suc i)) = Some y"
  show "i \<le> fst y \<and> snd y = clock (fst y) \<and> cts < snd y
      \<and> (\<forall>k. i \<le> k \<and> k < fst y \<longrightarrow> clock k \<le> cts)"
  proof (cases "cts < clock i")
    case True
    with body show ?thesis by auto
  next
    case False
    with body have "stamp' clock cts (Suc i) = Some y" by simp
    from IH [OF this] have a: "Suc i \<le> fst y" "snd y = clock (fst y)" "cts < snd y"
      and b: "\<And>k. Suc i \<le> k \<Longrightarrow> k < fst y \<Longrightarrow> clock k \<le> cts"
      by blast+
    have "clock k \<le> cts" if "i \<le> k" "k < fst y" for k
    proof (cases "k = i")
      case True
      with False show ?thesis by (simp add: not_less)
    next
      case False
      with that have "Suc i \<le> k" by simp
      with that show ?thesis by (simp add: b)
    qed
    with a show ?thesis by auto
  qed
qed

lemma stamp_Some:
  assumes "stamp clock cts i = Some (j, t)"
  shows "i \<le> j \<and> t = clock j \<and> cts < t \<and> (\<forall>k. i \<le> k \<and> k < j \<longrightarrow> clock k \<le> cts)"
  using stamp_Some_raw [OF assms] by auto

lemma stamp_returns:
  "i \<le> k \<Longrightarrow> cts < clock k \<Longrightarrow> \<exists>j t. stamp clock cts i = Some (j, t)"
proof (induction "k - i" arbitrary: i)
  case 0
  then have "k = i" by simp
  with "0.prems" show ?case by (subst stamp.simps) simp
next
  case (Suc d)
  show ?case
  proof (cases "cts < clock i")
    case True
    then show ?thesis by (subst stamp.simps) simp
  next
    case False
    from Suc.hyps(2) Suc.prems have "d = k - Suc i" "Suc i \<le> k" by simp_all
    from Suc.hyps(1) [OF this Suc.prems(2)] False show ?thesis
      by (subst stamp.simps) simp
  qed
qed

lemma send_announcements_set:
  "e \<in> set (snd (send_announcements env s ks)) \<Longrightarrow> \<exists>p. e = SendSnapshotAnnouncementMessage p s"
  by (induction ks) (auto simp: Let_def split: option.splits prod.splits)

lemma send_announcements_ok:
  "\<forall>e. io env e = None \<Longrightarrow>
   send_announcements env s ks = (None, map (\<lambda>p. SendSnapshotAnnouncementMessage p s) ks)"
  by (induction ks) (auto simp: Let_def)

lemma announce_events:
  "snd (snd (cosiSendAnnouncement_announce env node sa s a final cache evs)) =
     evs @ [assignNewGraphRound final (cache\<lparr>cTimestamp := Timestamp s\<rparr>)]
       @ snd (send_announcements env
           (s\<lparr>RoundNumber := cNumber cache, References := cReferences cache,
              Hash := PayloadHash env (s\<lparr>RoundNumber := cNumber cache, References := cReferences cache\<rparr>)\<rparr>)
           (rangeConsensusNodes env))"
  by (simp add: cosiSendAnnouncement_announce_def Let_def split: prod.split)

lemma announce_announcement:
  assumes "SendSnapshotAnnouncementMessage p s'
      \<in> set (snd (snd (cosiSendAnnouncement_announce env node sa s a final cache evs)))"
    and "\<And>q x. SendSnapshotAnnouncementMessage q x \<notin> set evs"
  shows "Timestamp s' = Timestamp s \<and> RoundNumber s' = cNumber cache
     \<and> References s' = cReferences cache
     \<and> assignNewGraphRound final (cache\<lparr>cTimestamp := Timestamp s\<rparr>)
         \<in> set (snd (snd (cosiSendAnnouncement_announce env node sa s a final cache evs)))"
proof -
  let ?s2 = "s\<lparr>RoundNumber := cNumber cache, References := cReferences cache,
              Hash := PayloadHash env (s\<lparr>RoundNumber := cNumber cache, References := cReferences cache\<rparr>)\<rparr>"
  from assms have "SendSnapshotAnnouncementMessage p s'
      \<in> set (snd (send_announcements env ?s2 (rangeConsensusNodes env)))"
    by (auto simp: announce_events)
  from send_announcements_set [OF this] have "s' = ?s2"
    by simp
  then show ?thesis
    by (simp add: announce_events)
qed

lemma round_cases:
  assumes ann: "\<And>f c more. (\<forall>q x. SendSnapshotAnnouncementMessage q x \<notin> set more) \<Longrightarrow>
        c = cache \<or> cSnapshots c = [] \<Longrightarrow>
        Q (cosiSendAnnouncement_announce env node sa s a f c (evs @ more))"
    and other: "\<And>out more. (\<forall>q x. SendSnapshotAnnouncementMessage q x \<notin> set more) \<Longrightarrow>
        Q (out, node, evs @ more)"
  shows "Q (cosiSendAnnouncement_round env node sa s a final cache evs)"
proof -
  have a0: "Q (cosiSendAnnouncement_announce env node sa s a f cache evs)" for f
    using ann [of "[]" cache f] by simp
  have a1: "Q (cosiSendAnnouncement_announce env node sa s a f c (evs @ [StartNewRound x1 x2 x3 x4]))"
    if "cSnapshots c = []" for f c x1 x2 x3 x4
    using ann [of "[StartNewRound x1 x2 x3 x4]" c f] that by simp
  have b0: "Q (out, node, evs)" for out
    using other [of "[]" out] by simp
  have b1: "Q (out, node, evs @ more)"
    if "\<forall>q x. SendSnapshotAnnouncementMessage q x \<notin> set more" for out more
    using other [of more out] that by simp
  show ?thesis
    by (simp add: cosiSendAnnouncement_round_def return_call_def Let_def a0 a1 b0 b1
          split: option.split prod.split)
qed

lemma send_cases:
  assumes deref: "deref_Snapshot node (mSnapshot m) = Some (sa, s)"
    and steady: "\<not> checkInitialAcceptSnapshot env s
                    (fst (checkTransaction env (NodeId s) (Transaction s)))"
    and round: "\<And>tx cache final i ts node3.
        checkTransaction env (NodeId s) (Transaction s) = (Some tx, False, None) \<Longrightarrow>
        Graph_CacheRound node (NodeId s) = Some cache \<Longrightarrow>
        Graph_FinalRound node (NodeId s) = Some final \<Longrightarrow>
        stamp (now env) (cTimestamp cache) 0 = Some (i, ts) \<Longrightarrow>
        Q (Some (cosiSendAnnouncement_round env node3 sa (s\<lparr>Timestamp := ts\<rparr>) (heap_next node)
                   final cache (writeTransaction tx # replicate i (Sleep 300000000))))"
    and other: "\<And>out node' evs. (\<forall>q x. SendSnapshotAnnouncementMessage q x \<notin> set evs) \<Longrightarrow>
        Q (Some (out, node', evs))"
    and spin: "Q None"
  shows "Q (cosiSendAnnouncement env node m)"
proof (cases "checkTransaction env (NodeId s) (Transaction s)")
  case (fields txo finalized err)
  have b: "Q (Some (out, node', evs))"
    if "\<forall>q x. SendSnapshotAnnouncementMessage q x \<notin> set evs" for out node' evs
    using other [of evs out node'] that by simp
  from steady fields have st: "\<not> checkInitialAcceptSnapshot env s txo"
    by simp
  show ?thesis
  proof (cases "CheckCatchUpWithPeers env \<and> NodeId s = IdForNetwork node
      \<and> Version s = SnapshotVersion env \<and> Signature s = None \<and> Timestamp s = 0")
    case False
    then show ?thesis
      using deref
      by (auto simp add: cosiSendAnnouncement_def return_call_def Let_def b)
  next
    case pass: True
    show ?thesis
    proof (cases "err = None \<and> \<not> finalized \<and> txo \<noteq> None")
      case False
      then show ?thesis
        using deref fields pass
        by (cases txo) (auto simp add: cosiSendAnnouncement_def return_call_def Let_def b)
    next
      case True
      then obtain tx where tx: "txo = Some tx" "err = None" "\<not> finalized"
        by auto
      have r: "Q (Some (cosiSendAnnouncement_round env node3 sa (s\<lparr>Timestamp := ts\<rparr>) (heap_next node)
                     final cache (writeTransaction tx # replicate i (Sleep 300000000))))"
        if "Graph_CacheRound node (NodeId s) = Some cache"
          "Graph_FinalRound node (NodeId s) = Some final"
          "stamp (now env) (cTimestamp cache) 0 = Some (i, ts)" for cache final i ts node3
        using round [of tx cache final i ts node3] that fields tx by simp
      show ?thesis
        using deref fields tx st pass r
        by (simp add: cosiSendAnnouncement_def return_call_def Let_def b spin
              split: option.split prod.split)
    qed
  qed
qed

lemma send_reaches_round:
  assumes "CheckCatchUpWithPeers env"
    and "deref_Snapshot node (mSnapshot m) = Some (sa, s)"
    and "NodeId s = IdForNetwork node" and "Version s = SnapshotVersion env"
    and "Signature s = None" and "Timestamp s = 0"
    and "checkTransaction env (NodeId s) (Transaction s) = (Some tx, False, None)"
    and "validateKernelSnapshot env s tx = None"
    and "io env (writeTransaction tx) = None"
    and "\<not> checkInitialAcceptSnapshot env s (Some tx)"
    and "aggregatorMap_Get node (Transaction s) = None"
    and "Graph_CacheRound node (NodeId s) = Some cache"
    and "Graph_FinalRound node (NodeId s) = Some final"
    and "cSnapshots cache \<noteq> [] \<or> CheckBroadcastedToPeers env"
    and "stamp (now env) (cTimestamp cache) 0 = Some (i, ts)"
  shows "cosiSendAnnouncement env node m =
    Some (cosiSendAnnouncement_round env
      (node\<lparr>aggregators := (aggregators node)(heap_next node \<mapsto> new_aggregator sa tx),
            heap_next := Suc (heap_next node),
            CosiAggregators := (CosiAggregators node)(Transaction s \<mapsto> heap_next node),
            snapshots := (snapshots node)(sa \<mapsto> s\<lparr>Timestamp := ts\<rparr>)\<rparr>)
      sa (s\<lparr>Timestamp := ts\<rparr>) (heap_next node) final cache
      (writeTransaction tx # replicate i (Sleep 300000000)))"
  using assms by (auto simp add: cosiSendAnnouncement_def Let_def)

subsection \<open>C2\<close>

lemma stamp_160: "stamp (\<lambda>i. 160) 120 0 = Some (0, 160)"
  by (subst stamp.simps) simp

text \<open>
  C2 as stated fails when there is no best external round: with a non-empty cache
  round that starts at 100, the gap 50 and the stamped timestamp 160, the handler
  sleeps half a gap and re-queues the snapshot; no round is sealed, opened or
  persisted.
\<close>

theorem C2_counterexample:
  "cSnapshots cacheS \<noteq> [] \<and> \<not> checkInitialAcceptSnapshot env_nobest snapS (Some (VersionedTransaction 77))
   \<and> Gap env_nobest cacheS = (100, 120)
   \<and> stamp (now env_nobest) (cTimestamp cacheS) 0 = Some (0, 160)
   \<and> (100 :: u64) + SnapshotRoundGap env_nobest \<le> 160
   \<and> map_option (\<lambda>r. (fst r, snd (snd r))) (cosiSendAnnouncement env_nobest nodeS proposeS) =
       Some (Return None,
         [writeTransaction (VersionedTransaction 77), Sleep 25,
          clearAndQueueSnapshotOrPanic (snapS\<lparr>Timestamp := 160\<rparr>)])"
  by (simp add: cosiSendAnnouncement_def cosiSendAnnouncement_round_def return_call_def
        env_nobest_def env0_def nodeS_def node0_def proposeS_def snapS_def cacheS_def finalS_def
        deref_Snapshot_def aggregatorMap_Get_def Let_def stamp_160)

text \<open>
  C2 (amended). In \<open>cosiSendAnnouncement\<close>, for every steady-state snapshot (the
  handler's checks passed, not initial-accept, no aggregator yet for its transaction)
  whose cache round is not empty and whose stamped timestamp \<open>ts\<close> satisfies
  \<open>ts >= cache.start + gap\<close> (\<open>uint64\<close> arithmetic): if there is no best external
  round for \<open>ts\<close>, the handler sleeps half a gap and re-queues the snapshot, and no
  round is sealed; if the node of the best external round is the node of the chain's
  final round, the process panics; otherwise the handler seals the cache round into
  a final round, opens a cache round with the number \<open>final.number + 1\<close> and the
  references \<open>{self: final.hash, external: best.hash}\<close> and persists it with
  \<open>StartNewRound\<close> (a failure of the store panics); then the new round takes the
  timestamp \<open>ts\<close>, the snapshot takes its number and references, both rounds are
  assigned to the graph and the snapshot is announced.
\<close>

theorem C2_rollover:
  assumes "CheckCatchUpWithPeers env"
    and "deref_Snapshot node (mSnapshot m) = Some (sa, s)"
    and "NodeId s = IdForNetwork node" and "Version s = SnapshotVersion env"
    and "Signature s = None" and "Timestamp s = 0"
    and "checkTransaction env (NodeId s) (Transaction s) = (Some tx, False, None)"
    and "validateKernelSnapshot env s tx = None"
    and "io env (writeTransaction tx) = None"
    and "\<not> checkInitialAcceptSnapshot env s (Some tx)"
    and "aggregatorMap_Get node (Transaction s) = None"
    and "Graph_CacheRound node (NodeId s) = Some cache"
    and "Graph_FinalRound node (NodeId s) = Some final"
    and "cSnapshots cache \<noteq> []"
    and "stamp (now env) (cTimestamp cache) 0 = Some (i, ts)"
    and "Gap env cache = (start, end')"
    and "start + SnapshotRoundGap env \<le> ts"
  shows
    "let a = heap_next node;
         s1 = s\<lparr>Timestamp := ts\<rparr>;
         node3 = node\<lparr>aggregators := (aggregators node)(a \<mapsto> new_aggregator sa tx),
                      heap_next := Suc a,
                      CosiAggregators := (CosiAggregators node)(Transaction s \<mapsto> a),
                      snapshots := (snapshots node)(sa \<mapsto> s1)\<rparr>;
         evs0 = writeTransaction tx # replicate i (Sleep 300000000);
         final' = asFinal env cache;
         requeue = clearAndQueueSnapshotOrPanic s1
     in (determinBestRound env ts = None \<longrightarrow>
           cosiSendAnnouncement env node m =
             Some (Return (io env requeue), node3,
                   evs0 @ [Sleep (unat (SnapshotRoundGap env div 2)), requeue]))
      \<and> (\<forall>best. determinBestRound env ts = Some best \<longrightarrow>
           (fNodeId best = fNodeId final \<longrightarrow>
              cosiSendAnnouncement env node m = Some (Panic, node3, evs0))
         \<and> (fNodeId best \<noteq> fNodeId final \<longrightarrow>
              (let refs = \<lparr>Self = fHash final', External = fHash best\<rparr>;
                   persist = StartNewRound (NodeId s) (fNumber final' + 1) refs (fStart final');
                   cache' = \<lparr>cNodeId = NodeId s, cNumber = fNumber final' + 1, cTimestamp = ts,
                              cReferences = refs, cSnapshots = []\<rparr>;
                   s2 = s1\<lparr>RoundNumber := fNumber final' + 1, References := refs\<rparr>;
                   s3 = s2\<lparr>Hash := PayloadHash env s2\<rparr>
               in if io env persist \<noteq> None
                  then cosiSendAnnouncement env node m = Some (Panic, node3, evs0 @ [persist])
                  else cosiSendAnnouncement env node m =
                    Some (Return (fst (send_announcements env s3 (rangeConsensusNodes env))),
                          node3\<lparr>snapshots := (snapshots node3)(sa \<mapsto> s3),
                                CosiAggregators := (CosiAggregators node3)(Hash s3 \<mapsto> a)\<rparr>,
                          evs0 @ [persist, assignNewGraphRound final' cache']
                            @ snd (send_announcements env s3 (rangeConsensusNodes env))))))"
proof -
  have b: "cSnapshots cache \<noteq> [] \<or> CheckBroadcastedToPeers env"
    using assms(14) by simp
  note reach = send_reaches_round [OF assms(1-13) b assms(15)]
  show ?thesis
    using assms(14,16,17)
    by (simp add: reach cosiSendAnnouncement_round_def cosiSendAnnouncement_announce_def
          return_call_def Let_def split: prod.split)
qed

theorem C2_rollover_witness:
  "map_option (\<lambda>r. (fst r, snd (snd r))) (cosiSendAnnouncement env_roll nodeS proposeS) =
     Some (Return None,
       [writeTransaction (VersionedTransaction 77),
        StartNewRound 1 8 \<lparr>Self = 90, External = 80\<rparr> 100,
        assignNewGraphRound
          \<lparr>fNodeId = 1, fNumber = 7, fStart = 100, fEnd = 120, fHash = 90\<rparr>
          \<lparr>cNodeId = 1, cNumber = 8, cTimestamp = 160,
             cReferences = \<lparr>Self = 90, External = 80\<rparr>, cSnapshots = []\<rparr>,
        SendSnapshotAnnouncementMessage 1
          (snapS\<lparr>RoundNumber := 8, References := \<lparr>Self = 90, External = 80\<rparr>,
                 Timestamp := 160, Hash := 99\<rparr>),
        SendSnapshotAnnouncementMessage 2
          (snapS\<lparr>RoundNumber := 8, References := \<lparr>Self = 90, External = 80\<rparr>,
                 Timestamp := 160, Hash := 99\<rparr>),
        SendSnapshotAnnouncementMessage 3
          (snapS\<lparr>RoundNumber := 8, References := \<lparr>Self = 90, External = 80\<rparr>,
                 Timestamp := 160, Hash := 99\<rparr>),
        SendSnapshotAnnouncementMessage 4
          (snapS\<lparr>RoundNumber := 8, References := \<lparr>Self = 90, External = 80\<rparr>,
                 Timestamp := 160, Hash := 99\<rparr>)])"
proof -
  have e: "env_roll = env0\<lparr>now := (\<lambda>i. 160), Gap := (\<lambda>c. (100, 120)),
     asFinal := (\<lambda>c. \<lparr>fNodeId = cNodeId c, fNumber = cNumber c, fStart = 100, fEnd = 120,
                       fHash = 90\<rparr>), determinBestRound := (\<lambda>t. Some finalB)\<rparr>"
    by (simp add: env_roll_def env_nobest_def)
  have h: "CheckCatchUpWithPeers env_roll"
    "deref_Snapshot nodeS (mSnapshot proposeS) = Some (0, snapS)"
    "NodeId snapS = IdForNetwork nodeS" "Version snapS = SnapshotVersion env_roll"
    "Signature snapS = None" "Timestamp snapS = 0"
    "checkTransaction env_roll (NodeId snapS) (Transaction snapS)
       = (Some (VersionedTransaction 77), False, None)"
    "validateKernelSnapshot env_roll snapS (VersionedTransaction 77) = None"
    "io env_roll (writeTransaction (VersionedTransaction 77)) = None"
    "\<not> checkInitialAcceptSnapshot env_roll snapS (Some (VersionedTransaction 77))"
    "aggregatorMap_Get nodeS (Transaction snapS) = None"
    "Graph_CacheRound nodeS (NodeId snapS) = Some cacheS"
    "Graph_FinalRound nodeS (NodeId snapS) = Some finalS"
    "cSnapshots cacheS \<noteq> []"
    "stamp (now env_roll) (cTimestamp cacheS) 0 = Some (0, 160)"
    "Gap env_roll cacheS = (100, 120)"
    "100 + SnapshotRoundGap env_roll \<le> 160"
    by (simp_all add: e env0_def nodeS_def node0_def proposeS_def snapS_def cacheS_def
          deref_Snapshot_def aggregatorMap_Get_def stamp_160)
  have v: "determinBestRound env_roll 160 = Some finalB" "fNodeId finalB \<noteq> fNodeId finalS"
    "io env_roll x = None" "rangeConsensusNodes env_roll = [1, 2, 3, 4]"
    "asFinal env_roll cacheS = \<lparr>fNodeId = 1, fNumber = 7, fStart = 100, fEnd = 120, fHash = 90\<rparr>"
    "PayloadHash env_roll y = 99" "fHash finalB = 80" for x y
    by (simp_all add: e env0_def finalB_def finalS_def cacheS_def)
  from C2_rollover [OF h, unfolded Let_def, THEN conjunct2, rule_format, OF v(1),
      THEN conjunct2, rule_format, OF v(2)]
  show ?thesis
    by (simp add: v snapS_def Let_def)
qed

subsection \<open>C3\<close>

text \<open>
  C3. For every steady-state (not initial-accept) snapshot that
  \<open>cosiSendAnnouncement\<close> broadcasts as an Announcement: the stamping loop over the
  copied cache round has returned after \<open>i\<close> sleeps of 300 ms, one for every clock
  reading that did not exceed \<open>cache.Timestamp\<close>; the timestamp of the broadcast
  snapshot is the first clock reading that exceeds it, so it is strictly greater
  than the timestamp of the copied cache round; and the cache round that the handler
  assigns to the graph for this snapshot (the copied round, or the new and empty
  round of a rollover) carries the snapshot's number, references and timestamp, and,
  when the timestamp of the copied round bounds the timestamps of its snapshots,
  every snapshot already in that round has a strictly smaller timestamp than the
  broadcast snapshot.
\<close>

theorem C3_stamp_exceeds_cache:
  assumes res: "cosiSendAnnouncement env node m = Some (out, node', evs)"
    and deref: "deref_Snapshot node (mSnapshot m) = Some (sa, s)"
    and steady: "\<not> checkInitialAcceptSnapshot env s
                    (fst (checkTransaction env (NodeId s) (Transaction s)))"
    and sent: "SendSnapshotAnnouncementMessage p s' \<in> set evs"
  shows "\<exists>cache i.
      Graph_CacheRound node (NodeId s) = Some cache
    \<and> stamp (now env) (cTimestamp cache) 0 = Some (i, Timestamp s')
    \<and> Timestamp s' = now env i \<and> (\<forall>k<i. now env k \<le> cTimestamp cache)
    \<and> cTimestamp cache < Timestamp s'
    \<and> take i (tl evs) = replicate i (Sleep 300000000)
    \<and> (\<exists>final' cache'.
          assignNewGraphRound final' cache' \<in> set evs
        \<and> cTimestamp cache' = Timestamp s' \<and> RoundNumber s' = cNumber cache'
        \<and> References s' = cReferences cache'
        \<and> (CacheRound_timestamp_is_max cache \<longrightarrow>
             list_all (\<lambda>x. Timestamp x < Timestamp s') (cSnapshots cache')))"
    (is "?goal")
proof -
  have "cosiSendAnnouncement env node m = Some (out, node', evs) \<longrightarrow> ?goal"
  proof (rule send_cases [OF deref steady])
    show "None = Some (out, node', evs) \<longrightarrow> ?goal"
      by simp
  next
    fix out0 node0 evs0
    assume "\<forall>q x. SendSnapshotAnnouncementMessage q x \<notin> set evs0"
    with sent show "Some (out0, node0, evs0) = Some (out, node', evs) \<longrightarrow> ?goal"
      by auto
  next
    fix tx cache final i ts node3
    assume cache: "Graph_CacheRound node (NodeId s) = Some cache"
      and st: "stamp (now env) (cTimestamp cache) 0 = Some (i, ts)"
    let ?evs0 = "writeTransaction tx # replicate i (Sleep 300000000)"
    let ?s1 = "s\<lparr>Timestamp := ts\<rparr>"
    from stamp_Some [OF st] have ts: "ts = now env i" "cTimestamp cache < ts"
      "\<forall>k<i. now env k \<le> cTimestamp cache"
      by auto
    have "cosiSendAnnouncement_round env node3 sa ?s1 (heap_next node) final cache ?evs0
        = (out, node', evs) \<longrightarrow> ?goal"
    proof (rule round_cases)
      fix out0 more
      assume "\<forall>q x. SendSnapshotAnnouncementMessage q x \<notin> set more"
      with sent show "(out0, node3, ?evs0 @ more) = (out, node', evs) \<longrightarrow> ?goal"
        by auto
    next
      fix f c more
      assume more: "\<forall>q x. SendSnapshotAnnouncementMessage q x \<notin> set more"
        and c: "c = cache \<or> cSnapshots c = []"
      show "cosiSendAnnouncement_announce env node3 sa ?s1 (heap_next node) f c (?evs0 @ more)
          = (out, node', evs) \<longrightarrow> ?goal"
      proof
        assume eq: "cosiSendAnnouncement_announce env node3 sa ?s1 (heap_next node) f c (?evs0 @ more)
          = (out, node', evs)"
        then have evs: "evs = snd (snd (cosiSendAnnouncement_announce env node3 sa ?s1
            (heap_next node) f c (?evs0 @ more)))"
          by simp
        have none: "\<And>q x. SendSnapshotAnnouncementMessage q x \<notin> set (?evs0 @ more)"
          using more by auto
        from announce_announcement [OF sent [unfolded evs] none]
        have a: "Timestamp s' = ts" "RoundNumber s' = cNumber c" "References s' = cReferences c"
          "assignNewGraphRound f (c\<lparr>cTimestamp := ts\<rparr>) \<in> set evs"
          by (simp_all add: evs)
        have pre: "take i (tl evs) = replicate i (Sleep 300000000)"
          by (simp add: evs announce_events)
        have old: "CacheRound_timestamp_is_max cache \<longrightarrow>
             list_all (\<lambda>x. Timestamp x < Timestamp s') (cSnapshots (c\<lparr>cTimestamp := ts\<rparr>))"
          using c ts(2) a(1)
          by (auto simp add: CacheRound_timestamp_is_max_def list_all_iff)
        from cache st ts a pre old show ?goal
          by (intro exI [of _ cache] exI [of _ i] conjI exI [of _ f]
                exI [of _ "c\<lparr>cTimestamp := ts\<rparr>"]) simp_all
      qed
    qed
    then show "Some (cosiSendAnnouncement_round env node3 sa ?s1 (heap_next node) final cache ?evs0)
        = Some (out, node', evs) \<longrightarrow> ?goal"
      by simp
  qed
  with res show ?thesis
    by simp
qed

lemma stamp_2100: "stamp (\<lambda>i. 1500 + 300 * of_nat i) 2000 0 = Some (2, 2100)"
  by (simp add: stamp.simps [of _ _ 0] stamp.simps [of _ _ "Suc 0"] stamp.simps [of _ _ "Suc (Suc 0)"])

theorem C3_stamp_exceeds_cache_witness:
  "map_option (\<lambda>r. (fst r, snd (snd r))) (cosiSendAnnouncement env_clock nodeT proposeS) =
     Some (Return None,
       [writeTransaction (VersionedTransaction 77), Sleep 300000000, Sleep 300000000,
        assignNewGraphRound finalS (cacheT\<lparr>cTimestamp := 2100\<rparr>),
        SendSnapshotAnnouncementMessage 1 snapT, SendSnapshotAnnouncementMessage 2 snapT,
        SendSnapshotAnnouncementMessage 3 snapT, SendSnapshotAnnouncementMessage 4 snapT])
   \<and> stamp (now env_clock) (cTimestamp cacheT) 0 = Some (2, Timestamp snapT)
   \<and> cTimestamp cacheT < Timestamp snapT
   \<and> CacheRound_timestamp_is_max cacheT
   \<and> list_all (\<lambda>x. Timestamp x < Timestamp snapT) (cSnapshots cacheT)"
proof -
  have h: "CheckCatchUpWithPeers env_clock"
    "deref_Snapshot nodeT (mSnapshot proposeS) = Some (0, snapS)"
    "NodeId snapS = IdForNetwork nodeT" "Version snapS = SnapshotVersion env_clock"
    "Signature snapS = None" "Timestamp snapS = 0"
    "checkTransaction env_clock (NodeId snapS) (Transaction snapS)
       = (Some (VersionedTransaction 77), False, None)"
    "validateKernelSnapshot env_clock snapS (VersionedTransaction 77) = None"
    "io env_clock (writeTransaction (VersionedTransaction 77)) = None"
    "\<not> checkInitialAcceptSnapshot env_clock snapS (Some (VersionedTransaction 77))"
    "aggregatorMap_Get nodeT (Transaction snapS) = None"
    "Graph_CacheRound nodeT (NodeId snapS) = Some cacheT"
    "Graph_FinalRound nodeT (NodeId snapS) = Some finalS"
    "cSnapshots cacheT \<noteq> [] \<or> CheckBroadcastedToPeers env_clock"
    "stamp (now env_clock) (cTimestamp cacheT) 0 = Some (2, 2100)"
    by (simp_all add: env_clock_def env0_def nodeT_def nodeS_def node0_def proposeS_def snapS_def
          cacheT_def deref_Snapshot_def aggregatorMap_Get_def stamp_2100)
  have v: "io env_clock x = None" "rangeConsensusNodes env_clock = [1, 2, 3, 4]"
    "PayloadHash env_clock y = 99" "Gap env_clock c = (1990, 2000)"
    "SnapshotRoundGap env_clock = 500" for x y c
    by (simp_all add: env_clock_def env0_def)
  have two: "replicate 2 e = [e, e]" for e :: Event
    by (simp add: numeral_2_eq_2)
  have run: "map_option (\<lambda>r. (fst r, snd (snd r))) (cosiSendAnnouncement env_clock nodeT proposeS) =
     Some (Return None,
       [writeTransaction (VersionedTransaction 77), Sleep 300000000, Sleep 300000000,
        assignNewGraphRound finalS (cacheT\<lparr>cTimestamp := 2100\<rparr>),
        SendSnapshotAnnouncementMessage 1 snapT, SendSnapshotAnnouncementMessage 2 snapT,
        SendSnapshotAnnouncementMessage 3 snapT, SendSnapshotAnnouncementMessage 4 snapT])"
    by (simp add: send_reaches_round [OF h] cosiSendAnnouncement_round_def
          cosiSendAnnouncement_announce_def Let_def v snapT_def snapS_def cacheT_def two)
  then obtain node' where res: "cosiSendAnnouncement env_clock nodeT proposeS =
      Some (Return None, node',
       [writeTransaction (VersionedTransaction 77), Sleep 300000000, Sleep 300000000,
        assignNewGraphRound finalS (cacheT\<lparr>cTimestamp := 2100\<rparr>),
        SendSnapshotAnnouncementMessage 1 snapT, SendSnapshotAnnouncementMessage 2 snapT,
        SendSnapshotAnnouncementMessage 3 snapT, SendSnapshotAnnouncementMessage 4 snapT])"
    by (cases "cosiSendAnnouncement env_clock nodeT proposeS") auto
  have st: "\<not> checkInitialAcceptSnapshot env_clock snapS
      (fst (checkTransaction env_clock (NodeId snapS) (Transaction snapS)))"
    using h(7,10) by simp
  have m: "CacheRound_timestamp_is_max cacheT"
    by (simp add: CacheRound_timestamp_is_max_def cacheT_def snapS_def)
  from C3_stamp_exceeds_cache [OF res h(2) st, of 1 snapT]
  obtain cache i final' cache' where
    c: "Graph_CacheRound nodeT (NodeId snapS) = Some cache"
    "stamp (now env_clock) (cTimestamp cache) 0 = Some (i, Timestamp snapT)"
    "cTimestamp cache < Timestamp snapT"
    by auto
  from c(1) h(12) have "cache = cacheT"
    by simp
  with c have "stamp (now env_clock) (cTimestamp cacheT) 0 = Some (i, Timestamp snapT)"
    "cTimestamp cacheT < Timestamp snapT"
    by simp_all
  moreover from this h(15) have "i = 2"
    by simp
  moreover have "list_all (\<lambda>x. Timestamp x < Timestamp snapT) (cSnapshots cacheT)"
    by (simp add: cacheT_def snapT_def snapS_def)
  ultimately show ?thesis
    using run m by simp
qed

end
